theory Spec2Isabelle
  imports Complex_Main
begin

section \<open>Python values used by \<^verbatim>\<open>gpspec.py\<close>\<close>

text \<open>
  The module works on numpy arrays of floats. A one-dimensional array is modelled as a
  \<^typ>\<open>real list\<close>: floating-point rounding, \<^verbatim>\<open>nan\<close> and \<^verbatim>\<open>inf\<close> are outside the model, so
  every statement below is one of exact arithmetic. The exceptions that the modelled
  statements can raise are values of \<open>py_error\<close> (an OSError carries its \<open>errno\<close>); a
  function that can raise returns \<open>py_error + 'a\<close>, with \<open>Inl\<close> for the exception.
\<close>

datatype errno = EEXIST | ENOENT

datatype py_error = IndexError | ValueError | IOError | OSError errno

text \<open>\<^verbatim>\<open>xs[a:b]\<close> for indices \<open>0 \<le> a\<close> and \<open>0 \<le> b\<close>: a slice never raises.\<close>

definition py_slice :: "'a list \<Rightarrow> nat \<Rightarrow> nat \<Rightarrow> 'a list" where
  "py_slice xs a b = drop a (take b xs)"

text \<open>
  \<^verbatim>\<open>np.where(cond)[0]\<close>: the indices at which a boolean array is true, in increasing
  order.
\<close>

definition np_where :: "bool list \<Rightarrow> nat list" where
  "np_where cond = filter (\<lambda>i. cond ! i) [0..<length cond]"

section \<open>\<^verbatim>\<open>pcaUtils.scaleSpectrum\<close>\<close>

text \<open>
  \<^verbatim>\<open>norm = np.sum(sedFlux); normSpec = sedFlux/norm; return normSpec\<close>.
  numpy does not raise when \<^verbatim>\<open>norm\<close> is zero (it yields \<^verbatim>\<open>nan\<close>/\<^verbatim>\<open>inf\<close> entries); the
  model has no such values, and no statement below is about a flux whose sum is zero.
\<close>

definition scaleSpectrum :: "real list \<Rightarrow> real list" where
  "scaleSpectrum sedFlux =
     (let norm = sum_list sedFlux;
          normSpec = map (\<lambda>x. x / norm) sedFlux
      in normSpec)"

section \<open>The wavelength window of \<^verbatim>\<open>pcaSED.specPCA\<close>\<close>

text \<open>
  Lines 157 to 161 of \<^verbatim>\<open>specPCA\<close>, on the wavelength grid of the first spectrum:
  \<^verbatim>\<open>
  min_wave_x = np.where(wavelen >= minWavelen)[0][0]
  max_wave_x = np.where(wavelen <= maxWavelen)[0][-1]
  wavelen_set = wavelen[min_wave_x:max_wave_x+1]
  \<close>
  Indexing the empty index array with \<^verbatim>\<open>[0]\<close> or \<^verbatim>\<open>[-1]\<close> raises IndexError.
\<close>

definition wavelen_window :: "real list \<Rightarrow> real \<Rightarrow> real \<Rightarrow> py_error + real list" where
  "wavelen_window wavelen minWavelen maxWavelen =
     (case np_where (map (\<lambda>w. w \<ge> minWavelen) wavelen) of
        [] \<Rightarrow> Inl IndexError
      | min_wave_x # _ \<Rightarrow>
          (let upto = np_where (map (\<lambda>w. w \<le> maxWavelen) wavelen) in
           if upto = [] then Inl IndexError
           else (let max_wave_x = last upto
                 in Inr (py_slice wavelen min_wave_x (max_wave_x + 1)))))"

section \<open>Two-dimensional arrays\<close>

text \<open>
  A two-dimensional numpy array of shape \<open>(length (rows A), ncols A)\<close>. The number of
  columns is a field of its own because an array with no row still has one. Every row of
  a well-formed array has \<open>ncols\<close> entries.
\<close>

record ndarray2 =
  ncols :: nat
  rows :: "real list list"

definition wf_array :: "ndarray2 \<Rightarrow> bool" where
  "wf_array A = list_all (\<lambda>r. length r = ncols A) (rows A)"

text \<open>
  The stop index of a slice \<^verbatim>\<open>[:stop]\<close> over \<open>n\<close> entries: a negative stop counts from the
  end, and a stop outside the range is clamped, never an error.
\<close>

definition slice_stop :: "int \<Rightarrow> nat \<Rightarrow> nat" where
  "slice_stop stop n = (if stop < 0 then nat (int n + stop) else min (nat stop) n)"

text \<open>\<^verbatim>\<open>A[:, :stop]\<close>.\<close>

definition take_cols :: "ndarray2 \<Rightarrow> int \<Rightarrow> ndarray2" where
  "take_cols A stop =
     (let c = slice_stop stop (ncols A)
      in \<lparr>ncols = c, rows = map (take c) (rows A)\<rparr>)"

text \<open>
  \<^verbatim>\<open>np.dot(A, B)\<close> of two two-dimensional arrays: entry \<open>(i, j)\<close> is the sum over \<open>k\<close> of
  \<open>A[i, k] * B[k, j]\<close>. numpy raises ValueError (shapes not aligned) unless the number of
  columns of \<open>A\<close> is the number of rows of \<open>B\<close>.
\<close>

definition np_dot :: "ndarray2 \<Rightarrow> ndarray2 \<Rightarrow> py_error + ndarray2" where
  "np_dot A B =
     (if ncols A \<noteq> length (rows B) then Inl ValueError
      else Inr \<lparr>ncols = ncols B,
                rows = map (\<lambda>a. map (\<lambda>j. \<Sum>k\<leftarrow>[0..<length (rows B)]. a ! k * (rows B ! k) ! j)
                                      [0..<ncols B])
                           (rows A)\<rparr>)"

text \<open>
  \<^verbatim>\<open>v + M\<close> for a one-dimensional \<open>v\<close> and a two-dimensional \<open>M\<close>, with numpy's broadcasting
  of the last axis: equal lengths add row by row, a length of one is stretched, anything
  else raises ValueError.
\<close>

definition np_add :: "real list \<Rightarrow> ndarray2 \<Rightarrow> py_error + ndarray2" where
  "np_add v M =
     (if length v = ncols M then
        Inr \<lparr>ncols = ncols M, rows = map (\<lambda>r. map2 (+) v r) (rows M)\<rparr>
      else if length v = 1 then
        Inr \<lparr>ncols = ncols M, rows = map (map (\<lambda>x. v ! 0 + x)) (rows M)\<rparr>
      else if ncols M = 1 then
        Inr \<lparr>ncols = length v, rows = map (\<lambda>r. map (\<lambda>x. x + r ! 0) v) (rows M)\<rparr>
      else Inl ValueError)"

text \<open>\<^verbatim>\<open>a[i]\<close> on a one-dimensional array: a negative index counts from the end.\<close>

definition np_index :: "real list \<Rightarrow> int \<Rightarrow> py_error + real" where
  "np_index a i =
     (let n = int (length a); j = (if i < 0 then n + i else i)
      in if 0 \<le> j \<and> j < n then Inr (a ! nat j) else Inl IndexError)"

text \<open>A list of results is a result: the first exception raised is the one that escapes.\<close>

fun sequence_err :: "('e + 'a) list \<Rightarrow> 'e + 'a list" where
  "sequence_err [] = Inr []"
| "sequence_err (Inl e # rs) = Inl e"
| "sequence_err (Inr x # rs) =
     (case sequence_err rs of Inl e \<Rightarrow> Inl e | Inr xs \<Rightarrow> Inr (x # xs))"

section \<open>Spectra and \<^verbatim>\<open>pcaUtils.loadSpectra\<close>\<close>

text \<open>
  The fields of a \<^verbatim>\<open>Sed\<close> instance that the module reads and writes. \<open>scale_flux\<close> is
  set by \<^verbatim>\<open>specPCA\<close> only.
\<close>

record Sed =
  name :: string
  wavelen :: "real list"
  flambda :: "real list"
  scale_flux :: "real list option"

text \<open>
  What \<^verbatim>\<open>Sed.readSED_flambda\<close> (a collaborator) does with one file: it raises, or it
  reads a wavelength and a flux array. A first flux of \<^verbatim>\<open>nan\<close> has no counterpart among
  the reals, so it is an outcome of its own.
\<close>

datatype read_result = Raises | ReadsNaN | Reads "real list" "real list"

text \<open>\<^verbatim>\<open>os.path.join(root, name)\<close>.\<close>

definition path_join :: "string \<Rightarrow> string \<Rightarrow> string" where
  "path_join dirpath nm =
     (if nm \<noteq> [] \<and> hd nm = CHR ''/'' then nm
      else if dirpath = [] \<or> last dirpath = CHR ''/'' then dirpath @ nm
      else dirpath @ ''/'' @ nm)"

text \<open>
  The body of the inner loop of \<^verbatim>\<open>loadSpectra\<close>: the bare \<^verbatim>\<open>except\<close> skips a file
  whose reading raises, also when \<^verbatim>\<open>spec.flambda[0]\<close> raises on an empty flux array; a
  first flux of \<^verbatim>\<open>nan\<close> is not appended.
\<close>

definition load_one :: "(string \<Rightarrow> read_result) \<Rightarrow> string \<Rightarrow> string \<Rightarrow> Sed list" where
  "load_one readSED_flambda dirpath nm =
     (case readSED_flambda (path_join dirpath nm) of
        Raises \<Rightarrow> []
      | ReadsNaN \<Rightarrow> []
      | Reads w f \<Rightarrow>
          (if f = [] then []
           else [\<lparr>name = nm, wavelen = w, flambda = f, scale_flux = None\<rparr>]))"

text \<open>
  \<^verbatim>\<open>loadSpectra\<close> over the triples \<open>(dirpath, dirnames, filenames)\<close> that
  \<^verbatim>\<open>os.walk(directory)\<close> yields. The progress messages it prints are not modelled.
\<close>

definition loadSpectra ::
  "(string \<Rightarrow> read_result) \<Rightarrow> (string \<times> string list \<times> string list) list \<Rightarrow> Sed list" where
  "loadSpectra readSED_flambda walk =
     concat (map (\<lambda>(dirpath, dirnames, filenames).
                    concat (map (load_one readSED_flambda dirpath) filenames))
                 walk)"

section \<open>\<^verbatim>\<open>pcaSED\<close>\<close>

text \<open>
  The attributes that \<^verbatim>\<open>__init__\<close> sets. \<open>bandpass_dict\<close> stands for the method
  \<^verbatim>\<open>bandpass_dict.magListForSed\<close> of the photometry collaborator, applied to a \<^verbatim>\<open>Sed\<close>
  that \<^verbatim>\<open>setSED(wavelen, flambda)\<close> has just filled: it maps the two arrays to one
  magnitude per filter.
\<close>

record pcaSED_init =
  spec_list_orig :: "Sed list"
  filters :: "string list"
  bandpass_dict :: "real list \<Rightarrow> real list \<Rightarrow> real list"

text \<open>The attributes that \<^verbatim>\<open>specPCA\<close> adds: the fitted model.\<close>

record pcaSED = pcaSED_init +
  spec_list :: "Sed list"
  mean_spec :: "real list"
  eigenspectra :: ndarray2
  projected :: ndarray2
  explained_var :: "real list"
  mags :: "real list list"
  colors :: "real list list"

text \<open>
  A fitted \<^verbatim>\<open>sklearn.decomposition.PCA\<close> object (a collaborator): its attributes
  \<^verbatim>\<open>mean_\<close>, \<^verbatim>\<open>components_\<close>, \<^verbatim>\<open>explained_variance_ratio_\<close> and its method \<^verbatim>\<open>transform\<close>.
\<close>

record skl_pca =
  pca_mean :: "real list"
  pca_components :: ndarray2
  pca_explained_variance_ratio :: "real list"
  pca_transform :: "real list list \<Rightarrow> ndarray2"

text \<open>
  The body of the loop of \<^verbatim>\<open>specPCA\<close> over \<^verbatim>\<open>spec_list_orig\<close>: the magnitudes of the
  spectrum, its scaled flux after resampling, and the resampled copy. \<open>resampleSED\<close> is
  the collaborator \<^verbatim>\<open>Sed.resampleSED(wavelen_match=...)\<close>, from the arrays of the spectrum
  and the target grid to the new arrays.
\<close>

definition prepare_spec ::
  "(real list \<Rightarrow> real list \<Rightarrow> real list) \<Rightarrow>
   (real list \<Rightarrow> real list \<Rightarrow> real list \<Rightarrow> real list \<times> real list) \<Rightarrow>
   real list \<Rightarrow> Sed \<Rightarrow> real list \<times> real list \<times> Sed" where
  "prepare_spec magListForSed resampleSED wavelen_set spec =
     (let temp_mags = magListForSed (wavelen spec) (flambda spec);
          (w, f) = resampleSED (wavelen spec) (flambda spec) wavelen_set;
          scaled = scaleSpectrum f
      in (temp_mags, scaled,
          \<lparr>name = name spec, wavelen = w, flambda = f, scale_flux = Some scaled\<rparr>))"

text \<open>
  Lines 180 to 184: the colours from the magnitudes, one array per pair of adjacent
  filters.
  \<^verbatim>\<open>
  full_mags_T = np.transpose(np.array(full_mags))
  for color_num in range(0, len(full_mags_T)-1):
      color_vals.append(full_mags_T[color_num] - full_mags_T[color_num+1])
  \<close>
\<close>

definition color_vals :: "real list list \<Rightarrow> real list list" where
  "color_vals full_mags =
     (let full_mags_T = transpose full_mags
      in map (\<lambda>color_num. map2 (-) (full_mags_T ! color_num) (full_mags_T ! (color_num + 1)))
             [0..<length full_mags_T - 1])"

text \<open>
  \<^verbatim>\<open>specPCA\<close>. \<^verbatim>\<open>self.spec_list_orig[0]\<close> raises IndexError on an empty list, before any
  collaborator is called. \<open>sklPCA\<close> stands for \<^verbatim>\<open>sklPCA(n_components=comps).fit(...)\<close>,
  which may raise.
\<close>

definition specPCA ::
  "(real list \<Rightarrow> real list \<Rightarrow> real list \<Rightarrow> real list \<times> real list) \<Rightarrow>
   (int \<Rightarrow> real list list \<Rightarrow> py_error + skl_pca) \<Rightarrow>
   pcaSED_init \<Rightarrow> int \<Rightarrow> real \<Rightarrow> real \<Rightarrow> py_error + pcaSED" where
  "specPCA resampleSED sklPCA self comps minWavelen maxWavelen =
     (case spec_list_orig self of
        [] \<Rightarrow> Inl IndexError
      | spec0 # _ \<Rightarrow>
          (case wavelen_window (wavelen spec0) minWavelen maxWavelen of
             Inl e \<Rightarrow> Inl e
           | Inr wavelen_set \<Rightarrow>
               (let prepared = map (prepare_spec (bandpass_dict self) resampleSED wavelen_set)
                                   (spec_list_orig self);
                    full_mags = map fst prepared;
                    scaled_fluxes = map (fst \<circ> snd) prepared
                in case sklPCA comps scaled_fluxes of
                     Inl e \<Rightarrow> Inl e
                   | Inr spectra_pca \<Rightarrow>
                       Inr \<lparr>spec_list_orig = spec_list_orig self,
                            filters = filters self,
                            bandpass_dict = bandpass_dict self,
                            spec_list = map (snd \<circ> snd) prepared,
                            mean_spec = pca_mean spectra_pca,
                            eigenspectra = pca_components spectra_pca,
                            projected = pca_transform spectra_pca scaled_fluxes,
                            explained_var = pca_explained_variance_ratio spectra_pca,
                            mags = full_mags,
                            colors = transpose (color_vals full_mags)\<rparr>)))"

text \<open>
  \<^verbatim>\<open>reconstruct_spectra\<close>:
  \<^verbatim>\<open>self.mean_spec + np.dot(self.projected[:, :num_comps], self.eigenspectra)\<close>.
\<close>

definition reconstruct_spectra :: "pcaSED \<Rightarrow> int \<Rightarrow> py_error + ndarray2" where
  "reconstruct_spectra self num_comps =
     (case np_dot (take_cols (projected self) num_comps) (eigenspectra self) of
        Inl e \<Rightarrow> Inl e
      | Inr d \<Rightarrow> np_add (mean_spec self) d)"

text \<open>
  The colours of one reconstructed spectrum in \<^verbatim>\<open>calc_new_colors\<close>, from its
  magnitudes \<open>ms\<close>:
  \<^verbatim>\<open>[mags[x] - mags[x-1] for x in range(len(self.filters)-1)]\<close>.
\<close>

definition new_color :: "real list \<Rightarrow> int \<Rightarrow> py_error + real" where
  "new_color ms x =
     (case np_index ms x of
        Inl e \<Rightarrow> Inl e
      | Inr a \<Rightarrow> (case np_index ms (x - 1) of Inl e \<Rightarrow> Inl e | Inr b \<Rightarrow> Inr (a - b)))"

definition new_colors :: "string list \<Rightarrow> real list \<Rightarrow> py_error + real list" where
  "new_colors filterNames ms =
     sequence_err (map (new_color ms) (map int [0..<length filterNames - 1]))"

text \<open>
  \<^verbatim>\<open>calc_new_colors\<close>: every reconstructed spectrum is paired with the wavelengths of
  \<^verbatim>\<open>self.spec_list[0]\<close> and handed to the photometry collaborator.
\<close>

definition calc_new_colors :: "pcaSED \<Rightarrow> int \<Rightarrow> py_error + real list list" where
  "calc_new_colors self num_comps =
     (case reconstruct_spectra self num_comps of
        Inl e \<Rightarrow> Inl e
      | Inr reconstructed_specs \<Rightarrow>
          sequence_err
            (map (\<lambda>spec. case spec_list self of
                            [] \<Rightarrow> Inl IndexError
                          | spec0 # _ \<Rightarrow>
                              new_colors (filters self) (bandpass_dict self (wavelen spec0) spec))
                 (rows reconstructed_specs)))"

section \<open>The file system and \<^verbatim>\<open>pcaSED.write_output\<close>\<close>
















text \<open>
  The shapes of a fitted model: \<open>m\<close> spectra on a grid of \<open>n\<close> wavelengths with \<open>c\<close>
  components give a mean of length \<open>n\<close>, eigenspectra of shape \<open>(c, n)\<close> and coefficients
  of shape \<open>(m, c)\<close>, with \<open>m \<ge> 1\<close>. scikit-learn's \<^verbatim>\<open>fit\<close> and \<^verbatim>\<open>transform\<close> return arrays
  of these shapes.
\<close>

definition fitted :: "pcaSED \<Rightarrow> bool" where
  "fitted self =
     (spec_list self \<noteq> []
      \<and> length (rows (projected self)) = length (spec_list self)
      \<and> wf_array (projected self) \<and> wf_array (eigenspectra self)
      \<and> ncols (projected self) = length (rows (eigenspectra self))
      \<and> ncols (eigenspectra self) = length (mean_spec self))"

text \<open>
  The reconstruction in the words of the specification, for one vector of coefficients:
  the mean spectrum plus the sum over \<open>k < numComponents\<close> of \<open>coeff[k] * eigenspectra[k]\<close>.
\<close>

definition spec_reconstruct :: "real list \<Rightarrow> real list list \<Rightarrow> nat \<Rightarrow> real list \<Rightarrow> real list" where
  "spec_reconstruct mean_spectrum eigs numComponents coeff =
     map (\<lambda>i. mean_spectrum ! i + (\<Sum>k\<leftarrow>[0..<numComponents]. coeff ! k * (eigs ! k) ! i))
         [0..<length mean_spectrum]"

text \<open>
  The colours in the words of the specification: the differences of adjacent magnitudes,
  \<open>mags[i] - mags[i+1]\<close> for \<open>i\<close> from 0 to \<open>len(filterNames) - 2\<close>.
\<close>

definition spec_colors :: "string list \<Rightarrow> real list \<Rightarrow> real list" where
  "spec_colors filterNames ms = map (\<lambda>i. ms ! i - ms ! (i + 1)) [0..<length filterNames - 1]"

text \<open>
  The normalized input spectra of a fitted model: the scaled flux that \<open>specPCA\<close> stored
  with every spectrum of \<open>spec_list\<close> and handed to the principal component analysis.
\<close>

definition scaled_fluxes :: "pcaSED \<Rightarrow> real list list" where
  "scaled_fluxes self = List.map_filter scale_flux (spec_list self)"

text \<open>Two arrays of the same shape agree within \<open>eps\<close>, entry by entry.\<close>

definition within_tol :: "real \<Rightarrow> real list list \<Rightarrow> real list list \<Rightarrow> bool" where
  "within_tol eps R X = list_all2 (list_all2 (\<lambda>u v. \<bar>u - v\<bar> < eps)) R X"

text \<open>
  What the principal component analysis (the collaborator) promises, in the words of the
  specification: the eigenspectra are orthonormal, and the coefficients of a spectrum are
  the projections of the spectrum minus the mean onto the eigenspectra.
\<close>

definition orthonormal :: "real list list \<Rightarrow> bool" where
  "orthonormal E =
     list_all (\<lambda>k. list_all (\<lambda>l. (\<Sum>j\<leftarrow>[0..<length (E ! k)]. E ! k ! j * E ! l ! j)
                                   = (if k = l then 1 else 0))
                         [0..<length E])
              [0..<length E]"

definition pca_projection :: "real list \<Rightarrow> real list list \<Rightarrow> real list \<Rightarrow> real list" where
  "pca_projection mean_spectrum E x =
     map (\<lambda>e. \<Sum>j\<leftarrow>[0..<length mean_spectrum]. (x ! j - mean_spectrum ! j) * e ! j) E"

section \<open>An example model\<close>

text \<open>
  Four spectra on a grid of four wavelengths. Scaled to unit sum they are the mean
  \<open>(1/4, 1/4, 1/4, 1/4)\<close> plus or minus \<open>1/5\<close> of the first eigenspectrum and plus or minus
  \<open>1/10\<close> of the second, so \<open>example_pca\<close> is what a principal component analysis with two
  components returns for them, and \<open>example_model\<close> is the model that \<open>specPCA\<close> fits
  (\<open>example_model_fit\<close> below). The photometry collaborator of the example reads three
  magnitudes off the flux.
\<close>

definition example_corpus :: "Sed list" where
  "example_corpus =
     [\<lparr>name = ''a.dat'', wavelen = [1, 2, 3, 4], flambda = [7, 7, 3, 3], scale_flux = None\<rparr>,
      \<lparr>name = ''b.dat'', wavelen = [1, 2, 3, 4], flambda = [3, 3, 7, 7], scale_flux = None\<rparr>,
      \<lparr>name = ''c.dat'', wavelen = [1, 2, 3, 4], flambda = [3, 2, 3, 2], scale_flux = None\<rparr>,
      \<lparr>name = ''d.dat'', wavelen = [1, 2, 3, 4], flambda = [2, 3, 2, 3], scale_flux = None\<rparr>]"

definition example_init :: pcaSED_init where
  "example_init =
     \<lparr>spec_list_orig = example_corpus,
      filters = [''u'', ''g'', ''r''],
      bandpass_dict = (\<lambda>w f. [f ! 0, f ! 1, f ! 2])\<rparr>"

definition example_pca :: skl_pca where
  "example_pca =
     \<lparr>pca_mean = [1 / 4, 1 / 4, 1 / 4, 1 / 4],
      pca_components =
        \<lparr>ncols = 4, rows = [[1 / 2, 1 / 2, - 1 / 2, - 1 / 2], [1 / 2, - 1 / 2, 1 / 2, - 1 / 2]]\<rparr>,
      pca_explained_variance_ratio = [4 / 5, 1 / 5],
      pca_transform =
        (\<lambda>X. \<lparr>ncols = 2, rows = [[1 / 5, 0], [- 1 / 5, 0], [0, 1 / 10], [0, - 1 / 10]]\<rparr>)\<rparr>"

text \<open>
  With one component only, the analysis of the same spectra keeps the first eigenspectrum.
\<close>

definition example_pca_one :: skl_pca where
  "example_pca_one =
     \<lparr>pca_mean = [1 / 4, 1 / 4, 1 / 4, 1 / 4],
      pca_components = \<lparr>ncols = 4, rows = [[1 / 2, 1 / 2, - 1 / 2, - 1 / 2]]\<rparr>,
      pca_explained_variance_ratio = [4 / 5],
      pca_transform = (\<lambda>X. \<lparr>ncols = 1, rows = [[1 / 5], [- 1 / 5], [0], [0]]\<rparr>)\<rparr>"

definition example_model :: pcaSED where
  "example_model =
     \<lparr>spec_list_orig = example_corpus,
      filters = [''u'', ''g'', ''r''],
      bandpass_dict = (\<lambda>w f. [f ! 0, f ! 1, f ! 2]),
      spec_list =
        [\<lparr>name = ''a.dat'', wavelen = [1, 2, 3, 4], flambda = [7, 7, 3, 3],
          scale_flux = Some [7 / 20, 7 / 20, 3 / 20, 3 / 20]\<rparr>,
         \<lparr>name = ''b.dat'', wavelen = [1, 2, 3, 4], flambda = [3, 3, 7, 7],
          scale_flux = Some [3 / 20, 3 / 20, 7 / 20, 7 / 20]\<rparr>,
         \<lparr>name = ''c.dat'', wavelen = [1, 2, 3, 4], flambda = [3, 2, 3, 2],
          scale_flux = Some [3 / 10, 1 / 5, 3 / 10, 1 / 5]\<rparr>,
         \<lparr>name = ''d.dat'', wavelen = [1, 2, 3, 4], flambda = [2, 3, 2, 3],
          scale_flux = Some [1 / 5, 3 / 10, 1 / 5, 3 / 10]\<rparr>],
      mean_spec = [1 / 4, 1 / 4, 1 / 4, 1 / 4],
      eigenspectra =
        \<lparr>ncols = 4, rows = [[1 / 2, 1 / 2, - 1 / 2, - 1 / 2], [1 / 2, - 1 / 2, 1 / 2, - 1 / 2]]\<rparr>,
      projected = \<lparr>ncols = 2, rows = [[1 / 5, 0], [- 1 / 5, 0], [0, 1 / 10], [0, - 1 / 10]]\<rparr>,
      explained_var = [4 / 5, 1 / 5],
      mags = [[7, 7, 3], [3, 3, 7], [3, 2, 3], [2, 3, 2]],
      colors = [[0, 4], [0, - 4], [1, - 1], [- 1, 1]]\<rparr>"

section \<open>Properties of \<^verbatim>\<open>scaleSpectrum\<close>\<close>

lemma sum_list_divide_const:
  fixes xs :: "real list"
  shows "sum_list (map (\<lambda>x. x / c) xs) = sum_list xs / c"
  by (induction xs) (simp_all add: add_divide_distrib)



text \<open>
  Claim C7. For a flux vector whose sum is not zero, \<open>scaleSpectrum\<close> divides every
  element by the sum of the vector, and the elements of the result sum to 1 (in exact
  arithmetic).
\<close>

theorem scaleSpectrum_unit_sum:
  assumes "sum_list flux \<noteq> 0"
  shows "scaleSpectrum flux = map (\<lambda>x. x / sum_list flux) flux
         \<and> sum_list (scaleSpectrum flux) = 1"
  using assms by (simp add: scaleSpectrum_def sum_list_divide_const)

theorem scaleSpectrum_unit_sum_witness:
  "sum_list [1, 3 :: real] \<noteq> 0
   \<and> scaleSpectrum [1, 3] = [1 / 4, 3 / 4]
   \<and> sum_list (scaleSpectrum [1, 3]) = 1"
proof -
  have h: "sum_list [1, 3 :: real] \<noteq> 0" by simp
  show ?thesis using h scaleSpectrum_unit_sum [OF h] by simp
qed



section \<open>The wavelength window\<close>














section \<open>Reconstruction and colours\<close>

text \<open>
  The example model is the result of \<open>specPCA\<close> on the example corpus with two components
  and the window [1, 4], which keeps the whole grid, so that resampling returns the flux
  unchanged.
\<close>

lemma example_model_fit:
  "specPCA (\<lambda>w f g. (g, f)) (\<lambda>c X. Inr example_pca) example_init 2 1 4 = Inr example_model"
  by (simp add: specPCA_def example_init_def example_corpus_def example_pca_def example_model_def
      wavelen_window_def np_where_def py_slice_def prepare_spec_def scaleSpectrum_def
      color_vals_def upt_conv_Cons Let_def)

lemma take_cols_clamp:
  assumes "wf_array A" and "int (ncols A) \<le> stop"
  shows "take_cols A stop = A"
proof -
  have c: "slice_stop stop (ncols A) = ncols A"
    using assms(2) by (simp add: slice_stop_def)
  have "map (take (ncols A)) (rows A) = rows A"
    using assms(1) by (simp add: wf_array_def list_all_iff map_idI)
  with c show ?thesis by (simp add: take_cols_def)
qed

lemma map2_add_upt:
  fixes v :: "real list"
  shows "map2 (+) v (map f [0..<length v]) = map (\<lambda>i. v ! i + f i) [0..<length v]"
  by (rule nth_equalityI) simp_all

lemma reconstruct_spectra_full:
  assumes "fitted self" and "int (length (rows (eigenspectra self))) \<le> num_comps"
  shows "reconstruct_spectra self num_comps =
         Inr \<lparr>ncols = length (mean_spec self),
              rows = map (spec_reconstruct (mean_spec self) (rows (eigenspectra self))
                            (length (rows (eigenspectra self))))
                         (rows (projected self))\<rparr>"
proof -
  have tc: "take_cols (projected self) num_comps = projected self"
    using assms by (intro take_cols_clamp) (simp_all add: fitted_def)
  have sh: "ncols (projected self) = length (rows (eigenspectra self))"
    and n: "ncols (eigenspectra self) = length (mean_spec self)"
    using assms(1) by (simp_all add: fitted_def)
  show ?thesis
    by (simp add: reconstruct_spectra_def tc np_dot_def sh n np_add_def map2_add_upt
        spec_reconstruct_def)
qed

lemma reconstruct_spectra_short:
  assumes "fitted self" and "rows (eigenspectra self) \<noteq> []"
    and "num_comps < int (length (rows (eigenspectra self)))"
  shows "reconstruct_spectra self num_comps = Inl ValueError"
proof -
  have sh: "ncols (projected self) = length (rows (eigenspectra self))"
    using assms(1) by (simp add: fitted_def)
  define n where "n = length (rows (eigenspectra self))"
  have "0 < n" and "num_comps < int n"
    using assms(2,3) by (simp_all add: n_def)
  then have "slice_stop num_comps n < n"
    by (cases "num_comps < 0") (simp_all add: slice_stop_def)
  then have "slice_stop num_comps (ncols (projected self)) < length (rows (eigenspectra self))"
    by (simp add: sh n_def)
  then have "ncols (take_cols (projected self) num_comps) \<noteq> length (rows (eigenspectra self))"
    by (simp add: take_cols_def Let_def)
  then show ?thesis
    by (simp add: reconstruct_spectra_def np_dot_def)
qed


lemma sequence_err_map_Inr:
  assumes "\<And>x. x \<in> set xs \<Longrightarrow> f x = Inr (g x)"
  shows "sequence_err (map f xs) = Inr (map g xs)"
  using assms by (induction xs) simp_all

text \<open>
  Claim C1. For a fitted model and \<open>0 \<le> num_comps \<le>\<close> the number of eigenspectra,
  \<open>reconstruct_spectra\<close> returns the mean spectrum plus the first \<open>num_comps\<close> coefficients
  times the first \<open>num_comps\<close> eigenspectra only when \<open>num_comps\<close> is the number of
  eigenspectra. For every smaller count the sliced coefficients no longer match the
  unsliced eigenspectra and the matrix product raises ValueError: the code slices
  \<open>projected\<close> and not \<open>eigenspectra\<close>.
\<close>

theorem reconstruct_spectra_truncation:
  assumes "fitted self" and "0 \<le> num_comps"
    and "num_comps \<le> int (length (rows (eigenspectra self)))"
  shows "reconstruct_spectra self num_comps =
         (if num_comps = int (length (rows (eigenspectra self))) then
            Inr \<lparr>ncols = length (mean_spec self),
                 rows = map (spec_reconstruct (mean_spec self) (rows (eigenspectra self))
                               (nat num_comps))
                            (rows (projected self))\<rparr>
          else Inl ValueError)"
proof (cases "num_comps = int (length (rows (eigenspectra self)))")
  case True
  then show ?thesis
    using reconstruct_spectra_full [OF assms(1), of num_comps] by simp
next
  case False
  with assms(2,3) have "rows (eigenspectra self) \<noteq> []"
    and "num_comps < int (length (rows (eigenspectra self)))" by auto
  with False show ?thesis
    using reconstruct_spectra_short [OF assms(1)] by simp
qed

theorem reconstruct_spectra_truncation_witness:
  "fitted example_model \<and> (0::int) \<le> 1
   \<and> 1 \<le> int (length (rows (eigenspectra example_model)))
   \<and> reconstruct_spectra example_model 1 = Inl ValueError
   \<and> map (spec_reconstruct (mean_spec example_model) (rows (eigenspectra example_model)) 1)
          (rows (projected example_model))
       = [[7 / 20, 7 / 20, 3 / 20, 3 / 20], [3 / 20, 3 / 20, 7 / 20, 7 / 20],
          [1 / 4, 1 / 4, 1 / 4, 1 / 4], [1 / 4, 1 / 4, 1 / 4, 1 / 4]]"
proof -
  have f: "fitted example_model"
    by (simp add: example_model_def fitted_def wf_array_def)
  have n: "int (length (rows (eigenspectra example_model))) = 2"
    by (simp add: example_model_def)
  have "reconstruct_spectra example_model 1 = Inl ValueError"
    using reconstruct_spectra_truncation [OF f, of 1] n by simp
  moreover have "map (spec_reconstruct (mean_spec example_model)
                        (rows (eigenspectra example_model)) 1)
                     (rows (projected example_model))
       = [[7 / 20, 7 / 20, 3 / 20, 3 / 20], [3 / 20, 3 / 20, 7 / 20, 7 / 20],
          [1 / 4, 1 / 4, 1 / 4, 1 / 4], [1 / 4, 1 / 4, 1 / 4, 1 / 4]]"
    by (simp add: example_model_def spec_reconstruct_def upt_conv_Cons)
  ultimately show ?thesis using f n by simp
qed

text \<open>
  Claim C3, as stated, fails: the example model has two eigenspectra, and a request for
  five components raises nothing and returns the reconstruction from both.
\<close>

theorem reconstruct_spectra_excess_counterexample:
  "fitted example_model
   \<and> int (length (rows (eigenspectra example_model))) < 5
   \<and> reconstruct_spectra example_model 5 =
       Inr \<lparr>ncols = 4,
            rows = [[7 / 20, 7 / 20, 3 / 20, 3 / 20], [3 / 20, 3 / 20, 7 / 20, 7 / 20],
                    [3 / 10, 1 / 5, 3 / 10, 1 / 5], [1 / 5, 3 / 10, 1 / 5, 3 / 10]]\<rparr>"
  by (simp add: example_model_def fitted_def wf_array_def reconstruct_spectra_def np_dot_def
      take_cols_def slice_stop_def np_add_def upt_conv_Cons)

text \<open>
  Claim C3, amended. For a fitted model, a component count above the number of
  eigenspectra raises no error: the column slice stops at the last column and the result
  is the reconstruction from all eigenspectra. A negative count, for a model with at least
  one eigenspectrum, raises ValueError in the matrix product.
\<close>

theorem reconstruct_spectra_out_of_range:
  assumes "fitted self"
  shows "(int (length (rows (eigenspectra self))) < num_comps \<longrightarrow>
            reconstruct_spectra self num_comps =
              reconstruct_spectra self (int (length (rows (eigenspectra self))))
            \<and> reconstruct_spectra self num_comps =
              Inr \<lparr>ncols = length (mean_spec self),
                   rows = map (spec_reconstruct (mean_spec self) (rows (eigenspectra self))
                                 (length (rows (eigenspectra self))))
                              (rows (projected self))\<rparr>)
         \<and> (num_comps < 0 \<and> rows (eigenspectra self) \<noteq> [] \<longrightarrow>
            reconstruct_spectra self num_comps = Inl ValueError)"
proof (intro conjI impI)
  assume "int (length (rows (eigenspectra self))) < num_comps"
  then have le: "int (length (rows (eigenspectra self))) \<le> num_comps" by simp
  show "reconstruct_spectra self num_comps =
        Inr \<lparr>ncols = length (mean_spec self),
             rows = map (spec_reconstruct (mean_spec self) (rows (eigenspectra self))
                           (length (rows (eigenspectra self))))
                        (rows (projected self))\<rparr>"
    using assms le by (rule reconstruct_spectra_full)
  then show "reconstruct_spectra self num_comps =
        reconstruct_spectra self (int (length (rows (eigenspectra self))))"
    using reconstruct_spectra_full [OF assms order_refl] by simp
next
  assume "num_comps < 0 \<and> rows (eigenspectra self) \<noteq> []"
  then show "reconstruct_spectra self num_comps = Inl ValueError"
    using assms by (intro reconstruct_spectra_short) simp_all
qed

theorem reconstruct_spectra_out_of_range_witness:
  "fitted example_model
   \<and> reconstruct_spectra example_model 3 =
       Inr \<lparr>ncols = 4,
            rows = [[7 / 20, 7 / 20, 3 / 20, 3 / 20], [3 / 20, 3 / 20, 7 / 20, 7 / 20],
                    [3 / 10, 1 / 5, 3 / 10, 1 / 5], [1 / 5, 3 / 10, 1 / 5, 3 / 10]]\<rparr>
   \<and> reconstruct_spectra example_model (- 1) = Inl ValueError"
proof -
  have f: "fitted example_model"
    by (simp add: example_model_def fitted_def wf_array_def)
  have n: "int (length (rows (eigenspectra example_model))) < 3"
    and e: "(- 1 :: int) < 0 \<and> rows (eigenspectra example_model) \<noteq> []"
    by (simp_all add: example_model_def)
  have full: "map (spec_reconstruct (mean_spec example_model)
                     (rows (eigenspectra example_model))
                     (length (rows (eigenspectra example_model))))
                  (rows (projected example_model))
       = [[7 / 20, 7 / 20, 3 / 20, 3 / 20], [3 / 20, 3 / 20, 7 / 20, 7 / 20],
          [3 / 10, 1 / 5, 3 / 10, 1 / 5], [1 / 5, 3 / 10, 1 / 5, 3 / 10]]"
    and m: "length (mean_spec example_model) = 4"
    by (simp_all add: example_model_def spec_reconstruct_def upt_conv_Cons)
  have "reconstruct_spectra example_model 3 =
       Inr \<lparr>ncols = 4,
            rows = [[7 / 20, 7 / 20, 3 / 20, 3 / 20], [3 / 20, 3 / 20, 7 / 20, 7 / 20],
                    [3 / 10, 1 / 5, 3 / 10, 1 / 5], [1 / 5, 3 / 10, 1 / 5, 3 / 10]]\<rparr>"
    using reconstruct_spectra_out_of_range [OF f, of 3] n unfolding full m by blast
  moreover have "reconstruct_spectra example_model (- 1) = Inl ValueError"
    using reconstruct_spectra_out_of_range [OF f, of "- 1"] e by simp
  ultimately show ?thesis using f by simp
qed

text \<open>
  Claim C6. With no input spectrum, \<open>specPCA\<close> raises (IndexError, at
  \<^verbatim>\<open>self.spec_list_orig[0]\<close>) and returns no model, whatever the collaborators and the
  other arguments are. The instance below it takes its empty list of spectra from
  \<open>loadSpectra\<close> on a directory without files.
\<close>

theorem specPCA_no_spectra:
  assumes "spec_list_orig self = []"
  shows "specPCA resampleSED sklPCA self comps minWavelen maxWavelen = Inl IndexError"
  using assms by (simp add: specPCA_def)

theorem specPCA_no_spectra_witness:
  "spec_list_orig \<lparr>spec_list_orig = loadSpectra (\<lambda>p. Raises) [(''spectra'', [], [])],
                   filters = [''u'', ''g''], bandpass_dict = (\<lambda>w f. [0, 0])\<rparr> = []
   \<and> specPCA (\<lambda>w f g. (g, g)) (\<lambda>c X. Inl ValueError)
        \<lparr>spec_list_orig = loadSpectra (\<lambda>p. Raises) [(''spectra'', [], [])],
         filters = [''u'', ''g''], bandpass_dict = (\<lambda>w f. [0, 0])\<rparr> 2 299 1200
       = Inl IndexError"
proof -
  have h: "spec_list_orig \<lparr>spec_list_orig = loadSpectra (\<lambda>p. Raises) [(''spectra'', [], [])],
                   filters = [''u'', ''g''], bandpass_dict = (\<lambda>w f. [0, 0])\<rparr> = []"
    by (simp add: loadSpectra_def)
  show ?thesis using h specPCA_no_spectra [OF h] by simp
qed


lemma new_color_value:
  assumes "x < length ms"
  shows "new_color ms (int x) = Inr (ms ! x - (if x = 0 then last ms else ms ! (x - 1)))"
proof (cases x)
  case 0
  with assms have "ms \<noteq> []" by auto
  then have "ms ! nat (int (length ms) - 1) = last ms"
    by (simp add: last_conv_nth nat_diff_distrib')
  with 0 assms show ?thesis
    by (simp add: new_color_def np_index_def)
next
  case (Suc y)
  have "nat (1 + int y) = Suc y" by arith
  with Suc assms show ?thesis
    by (simp add: new_color_def np_index_def)
qed

lemma new_colors_value:
  assumes "length ms = length fs"
  shows "new_colors fs ms =
         Inr (map (\<lambda>x. ms ! x - (if x = 0 then last ms else ms ! (x - 1)))
                  [0..<length fs - 1])"
proof -
  have "new_color ms (int x) = Inr (ms ! x - (if x = 0 then last ms else ms ! (x - 1)))"
    if "x \<in> set [0..<length fs - 1]" for x
    using that assms by (intro new_color_value) simp
  then show ?thesis
    unfolding new_colors_def map_map
    by (intro sequence_err_map_Inr) simp
qed

text \<open>
  Claim C2. With all components of a fitted model and a photometry collaborator that
  returns one magnitude per filter, \<open>calc_new_colors\<close> returns for every reconstructed
  spectrum the differences \<open>mags[x] - mags[x-1]\<close> for \<open>x\<close> from 0 to
  \<open>len(filters) - 2\<close>, the index \<open>-1\<close> being the last magnitude: these are not the
  differences \<open>mags[i] - mags[i+1]\<close> of adjacent filters that \<open>specPCA\<close> computes in
  \<open>color_vals\<close>. The instance below it compares the two on the example model.
\<close>

theorem calc_new_colors_differences:
  assumes "fitted self"
    and "\<And>w f. length (bandpass_dict self w f) = length (filters self)"
  shows "calc_new_colors self (int (length (rows (eigenspectra self)))) =
         Inr (map (\<lambda>spec. let ms = bandpass_dict self (wavelen (hd (spec_list self))) spec
                          in map (\<lambda>x. ms ! x - (if x = 0 then last ms else ms ! (x - 1)))
                                 [0..<length (filters self) - 1])
                  (map (spec_reconstruct (mean_spec self) (rows (eigenspectra self))
                          (length (rows (eigenspectra self))))
                       (rows (projected self))))"
proof -
  obtain spec0 rest where sl: "spec_list self = spec0 # rest"
    using assms(1) by (cases "spec_list self") (simp_all add: fitted_def)
  have rec: "reconstruct_spectra self (int (length (rows (eigenspectra self)))) =
         Inr \<lparr>ncols = length (mean_spec self),
              rows = map (spec_reconstruct (mean_spec self) (rows (eigenspectra self))
                            (length (rows (eigenspectra self))))
                         (rows (projected self))\<rparr>"
    using assms(1) by (intro reconstruct_spectra_full) simp_all
  show ?thesis
    unfolding calc_new_colors_def rec sl
    by (simp add: Let_def new_colors_value [OF assms(2)] sequence_err_map_Inr)
qed

theorem calc_new_colors_differences_witness:
  "fitted example_model
   \<and> (\<forall>w f. length (bandpass_dict example_model w f) = length (filters example_model))
   \<and> calc_new_colors example_model 2
       = Inr [[1 / 5, 0], [- (1 / 5), 0], [0, - (1 / 10)], [0, 1 / 10]]
   \<and> map (\<lambda>spec. spec_colors (filters example_model)
                    (bandpass_dict example_model (wavelen (hd (spec_list example_model))) spec))
          (map (spec_reconstruct (mean_spec example_model) (rows (eigenspectra example_model)) 2)
               (rows (projected example_model)))
       = [[0, 1 / 5], [0, - (1 / 5)], [1 / 10, - (1 / 10)], [- (1 / 10), 1 / 10]]"
proof -
  have f: "fitted example_model"
    by (simp add: example_model_def fitted_def wf_array_def)
  have b: "length (bandpass_dict example_model w f) = length (filters example_model)" for w f
    by (simp add: example_model_def)
  have n: "int (length (rows (eigenspectra example_model))) = 2"
    by (simp add: example_model_def)
  have "calc_new_colors example_model 2
       = Inr [[1 / 5, 0], [- (1 / 5), 0], [0, - (1 / 10)], [0, 1 / 10]]"
    using calc_new_colors_differences [OF f b] unfolding n
    by (simp add: example_model_def spec_reconstruct_def upt_conv_Cons)
  moreover have "map (\<lambda>spec. spec_colors (filters example_model)
                    (bandpass_dict example_model (wavelen (hd (spec_list example_model))) spec))
          (map (spec_reconstruct (mean_spec example_model) (rows (eigenspectra example_model)) 2)
               (rows (projected example_model)))
       = [[0, 1 / 5], [0, - (1 / 5)], [1 / 10, - (1 / 10)], [- (1 / 10), 1 / 10]]"
    by (simp add: example_model_def spec_reconstruct_def spec_colors_def upt_conv_Cons)
  ultimately show ?thesis using f b by simp
qed

section \<open>Reconstruction with all components\<close>

lemma sign_clash:
  fixes s t e0 e1 :: real
  assumes "0 < s * e0" "0 < s * e1" "0 < t * e0" "t * e1 < 0"
  shows False
  using assms by (auto simp: zero_less_mult_iff mult_less_0_iff)

lemma rank_one_misses:
  fixes m0 m1 pa pb pc pd e0 e1 :: real
  assumes "\<bar>(m0 + pa * e0) - 7/20\<bar> < 1/20" "\<bar>(m0 + pb * e0) - 3/20\<bar> < 1/20"
    and "\<bar>(m1 + pa * e1) - 7/20\<bar> < 1/20" "\<bar>(m1 + pb * e1) - 3/20\<bar> < 1/20"
    and "\<bar>(m0 + pc * e0) - 3/10\<bar> < 1/20" "\<bar>(m0 + pd * e0) - 1/5\<bar> < 1/20"
    and "\<bar>(m1 + pc * e1) - 1/5\<bar> < 1/20" "\<bar>(m1 + pd * e1) - 3/10\<bar> < 1/20"
  shows False
proof -
  have "0 < pa * e0 - pb * e0" using assms(1,2) by linarith
  moreover have "0 < pa * e1 - pb * e1" using assms(3,4) by linarith
  moreover have "0 < pc * e0 - pd * e0" using assms(5,6) by linarith
  moreover have "pc * e1 - pd * e1 < 0" using assms(7,8) by linarith
  ultimately have "0 < (pa - pb) * e0" "0 < (pa - pb) * e1" "0 < (pc - pd) * e0" "(pc - pd) * e1 < 0"
    by (simp_all add: algebra_simps)
  then show False by (rule sign_clash)
qed


lemma example_fit_spec_list:
  assumes "specPCA (\<lambda>w f g. (g, f)) sklPCA example_init comps 1 4 = Inr m"
  shows "spec_list m = spec_list example_model"
proof -
  have w: "wavelen_window [1, 2, 3, 4] 1 4 = Inr [1, 2, 3, 4]"
    by (simp add: wavelen_window_def np_where_def py_slice_def upt_conv_Cons)
  show ?thesis
    using assms
    by (auto simp: specPCA_def example_init_def example_corpus_def example_model_def w
        prepare_spec_def scaleSpectrum_def Let_def split: sum.splits)
qed

lemma scaled_fluxes_example:
  "scaled_fluxes example_model =
     [[7 / 20, 7 / 20, 3 / 20, 3 / 20], [3 / 20, 3 / 20, 7 / 20, 7 / 20],
      [3 / 10, 1 / 5, 3 / 10, 1 / 5], [1 / 5, 3 / 10, 1 / 5, 3 / 10]]"
  by (simp add: scaled_fluxes_def example_model_def List.map_filter_simps)

text \<open>
  Claim C4, as stated, fails for a fit that keeps fewer components than the centred
  spectra span. The example corpus is fitted with one component. With the first
  eigenspectrum, the reconstruction with that one component returns the mean for the
  third and the fourth spectrum. And whatever mean, eigenspectrum and coefficients the
  principal component analysis returns (of the shapes of a fitted model), the
  reconstruction misses some entry of some normalized input by at least 1/20, where the
  entries of the inputs lie between 3/20 and 7/20.
\<close>

theorem full_reconstruction_counterexample:
  "(\<exists>m. specPCA (\<lambda>w f g. (g, f)) (\<lambda>c X. Inr example_pca_one) example_init 1 1 4 = Inr m
        \<and> fitted m \<and> length (rows (eigenspectra m)) = 1
        \<and> scaled_fluxes m =
            [[7 / 20, 7 / 20, 3 / 20, 3 / 20], [3 / 20, 3 / 20, 7 / 20, 7 / 20],
             [3 / 10, 1 / 5, 3 / 10, 1 / 5], [1 / 5, 3 / 10, 1 / 5, 3 / 10]]
        \<and> reconstruct_spectra m 1 =
            Inr \<lparr>ncols = 4,
                 rows = [[7 / 20, 7 / 20, 3 / 20, 3 / 20], [3 / 20, 3 / 20, 7 / 20, 7 / 20],
                         [1 / 4, 1 / 4, 1 / 4, 1 / 4], [1 / 4, 1 / 4, 1 / 4, 1 / 4]]\<rparr>)
   \<and> \<not> (\<exists>sklPCA m R.
        specPCA (\<lambda>w f g. (g, f)) sklPCA example_init 1 1 4 = Inr m
        \<and> fitted m \<and> length (rows (eigenspectra m)) = 1
        \<and> reconstruct_spectra m 1 = Inr R
        \<and> within_tol (1 / 20) (rows R) (scaled_fluxes m))"
proof (intro conjI notI)
  show "\<exists>m. specPCA (\<lambda>w f g. (g, f)) (\<lambda>c X. Inr example_pca_one) example_init 1 1 4 = Inr m
        \<and> fitted m \<and> length (rows (eigenspectra m)) = 1
        \<and> scaled_fluxes m =
            [[7 / 20, 7 / 20, 3 / 20, 3 / 20], [3 / 20, 3 / 20, 7 / 20, 7 / 20],
             [3 / 10, 1 / 5, 3 / 10, 1 / 5], [1 / 5, 3 / 10, 1 / 5, 3 / 10]]
        \<and> reconstruct_spectra m 1 =
            Inr \<lparr>ncols = 4,
                 rows = [[7 / 20, 7 / 20, 3 / 20, 3 / 20], [3 / 20, 3 / 20, 7 / 20, 7 / 20],
                         [1 / 4, 1 / 4, 1 / 4, 1 / 4], [1 / 4, 1 / 4, 1 / 4, 1 / 4]]\<rparr>"
    by (simp add: specPCA_def example_init_def example_corpus_def example_pca_one_def
        wavelen_window_def np_where_def py_slice_def prepare_spec_def scaleSpectrum_def
        color_vals_def upt_conv_Cons Let_def fitted_def wf_array_def scaled_fluxes_def
        List.map_filter_simps reconstruct_spectra_def np_dot_def take_cols_def slice_stop_def
        np_add_def)
next
  assume "\<exists>sklPCA m R.
        specPCA (\<lambda>w f g. (g, f)) sklPCA example_init 1 1 4 = Inr m
        \<and> fitted m \<and> length (rows (eigenspectra m)) = 1
        \<and> reconstruct_spectra m 1 = Inr R
        \<and> within_tol (1 / 20) (rows R) (scaled_fluxes m)"
  then obtain sklPCA m R where fit: "specPCA (\<lambda>w f g. (g, f)) sklPCA example_init 1 1 4 = Inr m"
    and f: "fitted m" and one: "length (rows (eigenspectra m)) = 1"
    and rec: "reconstruct_spectra m 1 = Inr R"
    and tol: "within_tol (1 / 20) (rows R) (scaled_fluxes m)"
    by blast
  have sl: "spec_list m = spec_list example_model"
    using fit by (rule example_fit_spec_list)
  then have X: "scaled_fluxes m =
     [[7 / 20, 7 / 20, 3 / 20, 3 / 20], [3 / 20, 3 / 20, 7 / 20, 7 / 20],
      [3 / 10, 1 / 5, 3 / 10, 1 / 5], [1 / 5, 3 / 10, 1 / 5, 3 / 10]]"
    using scaled_fluxes_example by (simp add: scaled_fluxes_def)
  obtain e where E: "rows (eigenspectra m) = [e]"
    using one by (cases "rows (eigenspectra m)") auto
  have "length (rows (projected m)) = 4"
    using f sl by (simp add: fitted_def example_model_def)
  then obtain ra rb rc rd where P: "rows (projected m) = [ra, rb, rc, rd]"
    by (auto simp: length_Suc_conv eval_nat_numeral)
  have "reconstruct_spectra m 1 =
         Inr \<lparr>ncols = length (mean_spec m),
              rows = map (spec_reconstruct (mean_spec m) (rows (eigenspectra m))
                            (length (rows (eigenspectra m))))
                         (rows (projected m))\<rparr>"
    using f by (rule reconstruct_spectra_full) (simp add: one)
  with rec have R: "rows R = map (spec_reconstruct (mean_spec m) [e] 1) [ra, rb, rc, rd]"
    by (auto simp: E P)
  have "length (spec_reconstruct (mean_spec m) [e] 1 ra) = 4"
    using tol unfolding within_tol_def X R by (auto dest: list_all2_lengthD)
  then have n: "length (mean_spec m) = 4"
    by (simp add: spec_reconstruct_def)
  have sr: "spec_reconstruct (mean_spec m) [e] 1 r =
            [mean_spec m ! 0 + r ! 0 * e ! 0, mean_spec m ! 1 + r ! 0 * e ! 1,
             mean_spec m ! 2 + r ! 0 * e ! 2, mean_spec m ! 3 + r ! 0 * e ! 3]" for r
    by (simp add: spec_reconstruct_def n upt_conv_Cons numeral_2_eq_2 numeral_3_eq_3)
  have R': "rows R =
      [[mean_spec m ! 0 + ra ! 0 * e ! 0, mean_spec m ! 1 + ra ! 0 * e ! 1,
        mean_spec m ! 2 + ra ! 0 * e ! 2, mean_spec m ! 3 + ra ! 0 * e ! 3],
       [mean_spec m ! 0 + rb ! 0 * e ! 0, mean_spec m ! 1 + rb ! 0 * e ! 1,
        mean_spec m ! 2 + rb ! 0 * e ! 2, mean_spec m ! 3 + rb ! 0 * e ! 3],
       [mean_spec m ! 0 + rc ! 0 * e ! 0, mean_spec m ! 1 + rc ! 0 * e ! 1,
        mean_spec m ! 2 + rc ! 0 * e ! 2, mean_spec m ! 3 + rc ! 0 * e ! 3],
       [mean_spec m ! 0 + rd ! 0 * e ! 0, mean_spec m ! 1 + rd ! 0 * e ! 1,
        mean_spec m ! 2 + rd ! 0 * e ! 2, mean_spec m ! 3 + rd ! 0 * e ! 3]]"
    by (simp only: R list.map sr)
  have "\<bar>(mean_spec m ! 0 + ra ! 0 * e ! 0) - 7 / 20\<bar> < 1 / 20"
    and "\<bar>(mean_spec m ! 0 + rb ! 0 * e ! 0) - 3 / 20\<bar> < 1 / 20"
    and "\<bar>(mean_spec m ! 1 + ra ! 0 * e ! 1) - 7 / 20\<bar> < 1 / 20"
    and "\<bar>(mean_spec m ! 1 + rb ! 0 * e ! 1) - 3 / 20\<bar> < 1 / 20"
    and "\<bar>(mean_spec m ! 0 + rc ! 0 * e ! 0) - 3 / 10\<bar> < 1 / 20"
    and "\<bar>(mean_spec m ! 0 + rd ! 0 * e ! 0) - 1 / 5\<bar> < 1 / 20"
    and "\<bar>(mean_spec m ! 1 + rc ! 0 * e ! 1) - 1 / 5\<bar> < 1 / 20"
    and "\<bar>(mean_spec m ! 1 + rd ! 0 * e ! 1) - 3 / 10\<bar> < 1 / 20"
    using tol unfolding within_tol_def X R' by simp_all
  then show False by (rule rank_one_misses)
qed


lemma sum_list_upt: "(\<Sum>j\<leftarrow>[0..<n]. f j) = (\<Sum>j = 0..<n. f j)"
  by (simp add: interv_sum_list_conv_sum_set_nat)

lemma projection_of_combination:
  fixes mu :: "real list"
  assumes on: "orthonormal E" and len: "\<forall>e\<in>set E. length e = length mu" and a: "length a = length E"
  shows "pca_projection mu E (spec_reconstruct mu E (length E) a) = a"
proof (rule nth_equalityI)
  show "length (pca_projection mu E (spec_reconstruct mu E (length E) a)) = length a"
    using a by (simp add: pca_projection_def)
next
  fix k
  assume "k < length (pca_projection mu E (spec_reconstruct mu E (length E) a))"
  then have k: "k < length E" by (simp add: pca_projection_def)
  let ?n = "length mu" and ?c = "length E"
  have lk: "length (E ! l) = ?n" if "l < ?c" for l
    using len that by simp
  have orth: "(\<Sum>j = 0..<?n. E ! l ! j * E ! k ! j) = (if l = k then 1 else 0)" if "l < ?c" for l
  proof -
    have "(\<Sum>j\<leftarrow>[0..<length (E ! l)]. E ! l ! j * E ! k ! j) = (if l = k then 1 else 0)"
      using on that k by (simp add: orthonormal_def list_all_iff)
    then show ?thesis
      by (simp only: lk [OF that] sum_list_upt)
  qed
  have "pca_projection mu E (spec_reconstruct mu E ?c a) ! k
        = (\<Sum>j = 0..<?n. (spec_reconstruct mu E ?c a ! j - mu ! j) * E ! k ! j)"
    using k by (simp add: pca_projection_def sum_list_upt)
  also have "\<dots> = (\<Sum>j = 0..<?n. (\<Sum>l = 0..<?c. a ! l * E ! l ! j) * E ! k ! j)"
    by (rule sum.cong) (simp_all add: spec_reconstruct_def sum_list_upt)
  also have "\<dots> = (\<Sum>j = 0..<?n. \<Sum>l = 0..<?c. a ! l * (E ! l ! j * E ! k ! j))"
    by (simp add: sum_distrib_right mult.assoc)
  also have "\<dots> = (\<Sum>l = 0..<?c. \<Sum>j = 0..<?n. a ! l * (E ! l ! j * E ! k ! j))"
    by (rule sum.swap)
  also have "\<dots> = (\<Sum>l = 0..<?c. a ! l * (\<Sum>j = 0..<?n. E ! l ! j * E ! k ! j))"
    by (simp add: sum_distrib_left)
  also have "\<dots> = (\<Sum>l = 0..<?c. a ! l * (if l = k then 1 else 0))"
    by (rule sum.cong) (simp_all add: orth)
  also have "\<dots> = (\<Sum>l = 0..<?c. if l = k then a ! l else 0)"
    by (rule sum.cong) simp_all
  also have "\<dots> = a ! k"
    using k by (simp add: sum.delta)
  finally show "pca_projection mu E (spec_reconstruct mu E ?c a) ! k = a ! k" .
qed

text \<open>
  Claim C4, amended. For a fitted model with orthonormal eigenspectra whose coefficients
  are the projections of the normalized inputs minus the mean, and whose normalized
  inputs are each the mean plus a combination \<open>A\<close> of the eigenspectra (the fit kept as
  many components as the centred inputs span), the reconstruction with all components
  returns the normalized inputs (exactly, in exact arithmetic).
\<close>

theorem full_rank_reconstruction:
  assumes f: "fitted self"
    and on: "orthonormal (rows (eigenspectra self))"
    and pr: "rows (projected self)
             = map (pca_projection (mean_spec self) (rows (eigenspectra self)))
                   (scaled_fluxes self)"
    and sp: "scaled_fluxes self
             = map (spec_reconstruct (mean_spec self) (rows (eigenspectra self))
                      (length (rows (eigenspectra self)))) A"
    and la: "\<forall>a\<in>set A. length a = length (rows (eigenspectra self))"
  shows "reconstruct_spectra self (int (length (rows (eigenspectra self))))
         = Inr \<lparr>ncols = length (mean_spec self), rows = scaled_fluxes self\<rparr>"
proof -
  let ?E = "rows (eigenspectra self)" and ?mu = "mean_spec self"
  have len: "\<forall>e\<in>set ?E. length e = length ?mu"
    using f by (simp add: fitted_def wf_array_def list_all_iff)
  have "map (spec_reconstruct ?mu ?E (length ?E))
            (map (pca_projection ?mu ?E) (map (spec_reconstruct ?mu ?E (length ?E)) A))
        = map (spec_reconstruct ?mu ?E (length ?E)) A"
    unfolding map_map
  proof (rule map_cong [OF refl])
    fix a assume "a \<in> set A"
    with la have "length a = length ?E" by simp
    then have "pca_projection ?mu ?E (spec_reconstruct ?mu ?E (length ?E) a) = a"
      using on len by (intro projection_of_combination)
    then show "(spec_reconstruct ?mu ?E (length ?E) \<circ>
                  (pca_projection ?mu ?E \<circ> spec_reconstruct ?mu ?E (length ?E))) a
               = spec_reconstruct ?mu ?E (length ?E) a"
      by simp
  qed
  then have "map (spec_reconstruct ?mu ?E (length ?E)) (rows (projected self))
             = scaled_fluxes self"
    using pr sp by simp
  then show ?thesis
    using reconstruct_spectra_full [OF f order_refl] by simp
qed

theorem full_rank_reconstruction_witness:
  "fitted example_model
   \<and> orthonormal (rows (eigenspectra example_model))
   \<and> rows (projected example_model)
       = map (pca_projection (mean_spec example_model) (rows (eigenspectra example_model)))
             (scaled_fluxes example_model)
   \<and> scaled_fluxes example_model
       = map (spec_reconstruct (mean_spec example_model) (rows (eigenspectra example_model))
                (length (rows (eigenspectra example_model))))
             (rows (projected example_model))
   \<and> list_all (\<lambda>a. length a = length (rows (eigenspectra example_model)))
        (rows (projected example_model))
   \<and> reconstruct_spectra example_model 2
       = Inr \<lparr>ncols = 4,
              rows = [[7 / 20, 7 / 20, 3 / 20, 3 / 20], [3 / 20, 3 / 20, 7 / 20, 7 / 20],
                      [3 / 10, 1 / 5, 3 / 10, 1 / 5], [1 / 5, 3 / 10, 1 / 5, 3 / 10]]\<rparr>"
proof -
  have f: "fitted example_model"
    by (simp add: example_model_def fitted_def wf_array_def)
  have on: "orthonormal (rows (eigenspectra example_model))"
    by (simp add: example_model_def orthonormal_def upt_conv_Cons)
  have X: "scaled_fluxes example_model =
     [[7 / 20, 7 / 20, 3 / 20, 3 / 20], [3 / 20, 3 / 20, 7 / 20, 7 / 20],
      [3 / 10, 1 / 5, 3 / 10, 1 / 5], [1 / 5, 3 / 10, 1 / 5, 3 / 10]]"
    by (rule scaled_fluxes_example)
  have pr: "rows (projected example_model)
       = map (pca_projection (mean_spec example_model) (rows (eigenspectra example_model)))
             (scaled_fluxes example_model)"
    unfolding X by (simp add: example_model_def pca_projection_def upt_conv_Cons)
  have sp: "scaled_fluxes example_model
       = map (spec_reconstruct (mean_spec example_model) (rows (eigenspectra example_model))
                (length (rows (eigenspectra example_model))))
             (rows (projected example_model))"
    unfolding X by (simp add: example_model_def spec_reconstruct_def upt_conv_Cons)
  have la: "\<forall>a\<in>set (rows (projected example_model)).
              length a = length (rows (eigenspectra example_model))"
    by (simp add: example_model_def)
  have n: "int (length (rows (eigenspectra example_model))) = 2"
    and m: "length (mean_spec example_model) = 4"
    by (simp_all add: example_model_def)
  have "reconstruct_spectra example_model 2
       = Inr \<lparr>ncols = 4, rows = scaled_fluxes example_model\<rparr>"
    using full_rank_reconstruction [OF f on pr sp la] unfolding n m .
  with f on pr sp la show ?thesis
    unfolding X by (simp add: list_all_iff)
qed

section \<open>Saving a model\<close>






























end
